theory Spec2Isabelle
  imports Complex_Main "HOL-Library.Finite_Map"
begin

section \<open>The ZHIPUAI ChatGLM adapter (salesgpt/zhipullm.py)\<close>

text \<open>
  The module has one class, \<^verbatim>\<open>ZHIPUAI\<close>, with two methods of interest:
  \<^verbatim>\<open>generate_token\<close> (a signed bearer token from an API key and the clock) and
  \<^verbatim>\<open>_call\<close> (one HTTP POST, the checks on the response, the extraction of the text).
  Both are embedded as functions that pass the outside world explicitly: the process
  environment, the clock and the network are fields of a record, and every \<^verbatim>\<open>raise\<close>
  of the source is an \<open>Inl\<close> result.
\<close>

subsection \<open>Python values\<close>

text \<open>
  What \<^verbatim>\<open>response.json()\<close> returns and what a payload dictionary holds: \<^verbatim>\<open>None\<close>,
  booleans, integers, floats, strings, lists and dictionaries with string keys. Python's
  integers are unbounded (\<open>int\<close>); floats are idealised as \<open>real\<close>; a string is a list
  of characters.
\<close>

datatype pyval =
    PNone
  | PBool bool
  | PInt int
  | PFloat real
  | PStr string
  | PList "pyval list"
  | PDict "(string, pyval) fmap"

type_synonym dict = "(string, pyval) fmap"

subsection \<open>HTTP requests and responses\<close>

text \<open>
  The arguments of \<^verbatim>\<open>requests.post(url, headers=..., json=...)\<close>, and the three parts of a
  response the source reads: \<^verbatim>\<open>status_code\<close>, \<^verbatim>\<open>text\<close> and the outcome of \<^verbatim>\<open>json()\<close>,
  which is either the parsed body (\<open>Inr\<close>) or the message of the
  \<^verbatim>\<open>requests.exceptions.JSONDecodeError\<close> it raises (\<open>Inl\<close>).
\<close>

record http_request =
  url :: string
  headers :: "(string \<times> string) list"
  json :: dict

record response =
  status_code :: int
  resp_text :: string
  resp_json :: "string + pyval"

subsection \<open>Exceptions\<close>

text \<open>
  Every \<^verbatim>\<open>ValueError\<close> the source raises has its own message template; \<open>message\<close> has one
  constructor for each, carrying the values the f-string interpolates. The two unpacking
  messages are those of Python's tuple assignment \<^verbatim>\<open>id, secret = ...\<close>.
\<close>

datatype message =
    Not_enough_values_to_unpack
  | Too_many_values_to_unpack
  | Error_raised_by_inference_endpoint string
  | Failed_with_response response
  | Failed_with_response_code pyval pyval
  | No_content_in_response pyval
  | Unexpected_response_type pyval
  | Error_raised_during_decoding string string

datatype exn =
    ValueError message
  | KeyError pyval
  | IndexError
  | TypeError
  | AttributeError
  | Exception string exn
  | LibraryError string

text \<open>
  The names the specification gives to the raise statements of the source:
  line 150 (\<^verbatim>\<open>raise Exception("invalid apikey", e)\<close>), line 108, line 113, lines 135-138,
  line 132, line 122 and line 130.
\<close>

abbreviation InvalidCredentialError :: "exn \<Rightarrow> exn" where
  "InvalidCredentialError e \<equiv> Exception ''invalid apikey'' e"

abbreviation TransportError :: "string \<Rightarrow> exn" where
  "TransportError e \<equiv> ValueError (Error_raised_by_inference_endpoint e)"

abbreviation EndpointError :: "response \<Rightarrow> exn" where
  "EndpointError r \<equiv> ValueError (Failed_with_response r)"

abbreviation ResponseDecodeError :: "string \<Rightarrow> string \<Rightarrow> exn" where
  "ResponseDecodeError e t \<equiv> ValueError (Error_raised_during_decoding e t)"

abbreviation UnexpectedResponseError :: "pyval \<Rightarrow> exn" where
  "UnexpectedResponseError v \<equiv> ValueError (Unexpected_response_type v)"

abbreviation RemoteServiceError :: "pyval \<Rightarrow> pyval \<Rightarrow> exn" where
  "RemoteServiceError code msg \<equiv> ValueError (Failed_with_response_code code msg)"

abbreviation MissingContentError :: "pyval \<Rightarrow> exn" where
  "MissingContentError v \<equiv> ValueError (No_content_in_response v)"

subsection \<open>The outside world\<close>

text \<open>
  \<open>environ\<close> is \<^verbatim>\<open>os.environ\<close>; \<open>clock k\<close> is what the \<open>k\<close>-th call of \<^verbatim>\<open>time.time()\<close>
  returns, in seconds, and \<open>clock_reads\<close> counts the calls made so far; \<open>network\<close> is
  what \<^verbatim>\<open>requests.post\<close> does with a request: a response, or (\<open>Inl\<close>) the message of a
  \<^verbatim>\<open>RequestException\<close>; \<open>post_calls\<close> logs the requests handed to \<^verbatim>\<open>requests.post\<close>.
\<close>

record world =
  environ :: "string \<rightharpoonup> string"
  clock :: "nat \<Rightarrow> real"
  clock_reads :: nat
  network :: "http_request \<Rightarrow> string + response"
  post_calls :: "http_request list"

definition time_time :: "world \<Rightarrow> real \<times> world" where
  "time_time w = (clock w (clock_reads w), w\<lparr>clock_reads := Suc (clock_reads w)\<rparr>)"

text \<open>
  Python 3's \<^verbatim>\<open>round(x)\<close> on a float: the nearest integer, a tie going to the even one.
  \<^verbatim>\<open>int(round(x))\<close> is that integer.
\<close>

definition py_round :: "real \<Rightarrow> int" where
  "py_round x =
     (let f = \<lfloor>x\<rfloor>; d = x - of_int f
      in if d < 1 / 2 then f
         else if 1 / 2 < d then f + 1
         else if even f then f else f + 1)"

subsection \<open>Token generation (lines 146-163)\<close>

text \<open>
  \<^verbatim>\<open>s.split(sep)\<close> for a one-character separator: the text is cut at every occurrence
  of the separator, and the pieces (possibly empty) are returned in order.
\<close>

fun str_split :: "char \<Rightarrow> string \<Rightarrow> string list" where
  "str_split sep [] = [[]]"
| "str_split sep (c # cs) =
     (if c = sep then [] # str_split sep cs
      else (case str_split sep cs of
              [] \<Rightarrow> [[c]]
            | p # ps \<Rightarrow> (c # p) # ps))"

text \<open>
  Lines 147-148, \<^verbatim>\<open>id, secret = apikey.split(".")\<close>. The key comes from
  \<^verbatim>\<open>os.environ.get\<close>, so it may be \<^verbatim>\<open>None\<close>, which has no \<^verbatim>\<open>split\<close>
  (\<^verbatim>\<open>AttributeError\<close>); the assignment to two targets raises \<^verbatim>\<open>ValueError\<close> unless the
  list has exactly two elements.
\<close>

definition split_apikey :: "string option \<Rightarrow> exn + string \<times> string" where
  "split_apikey apikey =
     (case apikey of
        None \<Rightarrow> Inl AttributeError
      | Some s \<Rightarrow>
          (case str_split CHR ''.'' s of
             [] \<Rightarrow> Inl (ValueError Not_enough_values_to_unpack)
           | [p] \<Rightarrow> Inl (ValueError Not_enough_values_to_unpack)
           | [id', secret] \<Rightarrow> Inr (id', secret)
           | _ \<Rightarrow> Inl (ValueError Too_many_values_to_unpack)))"

text \<open>
  The arguments of \<^verbatim>\<open>jwt.encode(payload, secret, algorithm=..., headers=...)\<close>. PyJWT is a
  library outside the source: the encoder is a parameter of \<open>generate_token\<close>, and may
  itself raise.
\<close>

record jwt_call =
  jwt_payload :: "(string \<times> pyval) list"
  jwt_key :: string
  jwt_algorithm :: string
  jwt_headers :: "(string \<times> string) list"

text \<open>
  The dictionary display of lines 152-156 evaluates its values from left to right: the
  clock is read once for \<^verbatim>\<open>"exp"\<close> and once more for \<^verbatim>\<open>"timestamp"\<close>.
\<close>

definition generate_token ::
  "(jwt_call \<Rightarrow> exn + 'tok) \<Rightarrow> string option \<Rightarrow> int \<Rightarrow> world \<Rightarrow> (exn + 'tok) \<times> world" where
  "generate_token jwt_encode apikey exp_seconds w =
     (case split_apikey apikey of
        Inl e \<Rightarrow> (Inl (Exception ''invalid apikey'' e), w)
      | Inr (id', secret) \<Rightarrow>
          (let (t1, w1) = time_time w;
               (t2, w2) = time_time w1;
               payload = [(''api_key'', PStr id'),
                          (''exp'', PInt (py_round (t1 * 1000) + exp_seconds * 1000)),
                          (''timestamp'', PInt (py_round (t2 * 1000)))]
           in (jwt_encode \<lparr>jwt_payload = payload, jwt_key = secret,
                            jwt_algorithm = ''HS256'',
                            jwt_headers = [(''alg'', ''HS256''), (''sign_type'', ''SIGN'')]\<rparr>,
               w2)))"

subsection \<open>Subscripts, comparison and slicing on Python values\<close>

text \<open>
  \<^verbatim>\<open>v[k]\<close> for a string key \<open>k\<close>: a dictionary is looked up (\<^verbatim>\<open>KeyError\<close> when the key is
  absent); a list or a string takes no string index and the other values take no
  subscript at all (\<^verbatim>\<open>TypeError\<close>).
\<close>

fun getitem_str :: "pyval \<Rightarrow> string \<Rightarrow> exn + pyval" where
  "getitem_str (PDict d) k =
     (case fmlookup d k of None \<Rightarrow> Inl (KeyError (PStr k)) | Some v \<Rightarrow> Inr v)"
| "getitem_str v k = Inl TypeError"

text \<open>
  \<^verbatim>\<open>v[0]\<close>: the first element of a list or the first character of a string
  (\<^verbatim>\<open>IndexError\<close> when empty); a dictionary parsed from JSON has string keys only, so
  \<open>0\<close> is never one of them (\<^verbatim>\<open>KeyError\<close>); the other values take no subscript.
\<close>

fun getitem_0 :: "pyval \<Rightarrow> exn + pyval" where
  "getitem_0 (PList xs) = (case xs of [] \<Rightarrow> Inl IndexError | x # _ \<Rightarrow> Inr x)"
| "getitem_0 (PStr s) = (case s of [] \<Rightarrow> Inl IndexError | c # _ \<Rightarrow> Inr (PStr [c]))"
| "getitem_0 (PDict d) = Inl (KeyError (PInt 0))"
| "getitem_0 v = Inl TypeError"

text \<open>
  \<^verbatim>\<open>v == n\<close> for an integer \<open>n\<close>: numbers compare by value (\<^verbatim>\<open>200.0 == 200\<close>, and
  \<^verbatim>\<open>True == 1\<close>); a value of any other type is never equal to an integer.
\<close>

fun py_eq_int :: "pyval \<Rightarrow> int \<Rightarrow> bool" where
  "py_eq_int (PInt i) n = (i = n)"
| "py_eq_int (PFloat x) n = (x = of_int n)"
| "py_eq_int (PBool b) n = ((if b then 1 else 0) = n)"
| "py_eq_int v n = False"

text \<open>
  \<^verbatim>\<open>xs[1:-1]\<close> on a sequence of length \<open>n\<close>: the start \<open>1\<close> is clamped to \<open>n\<close>, the stop
  \<open>-1\<close> counts from the end and is clamped to \<open>0\<close>, and the slice is empty unless the
  start is before the stop.
\<close>

definition slice_1_m1 :: "'a list \<Rightarrow> 'a list" where
  "slice_1_m1 xs =
     (let n = int (length xs); start = min 1 n; stop = max (n - 1) 0
      in if start < stop then take (nat (stop - start)) (drop (nat start) xs) else [])"

text \<open>
  \<^verbatim>\<open>v[1:-1]\<close> on a value: strings and lists are sliced; a dictionary cannot be indexed by
  a slice (\<^verbatim>\<open>TypeError\<close>, unhashable, in the Python versions before 3.12) and the other
  values take no subscript.
\<close>

fun getitem_slice_1_m1 :: "pyval \<Rightarrow> exn + pyval" where
  "getitem_slice_1_m1 (PStr s) = Inr (PStr (slice_1_m1 s))"
| "getitem_slice_1_m1 (PList xs) = Inr (PList (slice_1_m1 xs))"
| "getitem_slice_1_m1 v = Inl TypeError"

definition bind_exn :: "exn + 'a \<Rightarrow> ('a \<Rightarrow> exn + 'b) \<Rightarrow> exn + 'b" where
  "bind_exn r f = (case r of Inl e \<Rightarrow> Inl e | Inr v \<Rightarrow> f v)"

subsection \<open>The completion call (lines 59-144)\<close>

text \<open>The fields of the class (lines 30-43).\<close>

record zhipuai =
  endpoint_url :: string
  model_kwargs :: "dict option"
  max_token :: int
  temperature :: real
  top_p :: real

text \<open>
  Lines 81 and 88-100: the headers and the payload of the request.
  \<^verbatim>\<open>self.model_kwargs or {}\<close> is the empty dictionary when the field is \<^verbatim>\<open>None\<close>;
  \<^verbatim>\<open>payload.update(d)\<close> is \<open>fmadd payload d\<close>, where the entries of \<open>d\<close> replace those
  of \<open>payload\<close> with the same key.
\<close>

definition request_of :: "zhipuai \<Rightarrow> string \<Rightarrow> dict \<Rightarrow> string \<Rightarrow> http_request" where
  "request_of self prompt kwargs bear_token =
     (let model_kwargs' = (case model_kwargs self of None \<Rightarrow> fmempty | Some d \<Rightarrow> d);
          headers' = [(''Content-Type'', ''application/json''),
                      (''Authorization'', ''Bearer '' @ bear_token)];
          payload = fmap_of_list
                      [(''prompt'', PStr prompt),
                       (''temperature'', PFloat (temperature self)),
                       (''max_length'', PInt (max_token self)),
                       (''top_p'', PFloat (top_p self))];
          payload = fmadd payload model_kwargs';
          payload = fmadd payload kwargs
      in \<lparr>url = endpoint_url self, headers = headers', json = payload\<rparr>)"

text \<open>
  Lines 112-138: the status check, the decoding of the body, and the checks on the
  parsed body, in the order of the source. The lookups \<^verbatim>\<open>parsed_response['code']\<close>,
  \<^verbatim>\<open>parsed_response['msg']\<close> and \<^verbatim>\<open>[...]['choices'][0]['content']\<close> are plain subscripts:
  the \<^verbatim>\<open>except\<close> clause catches \<^verbatim>\<open>JSONDecodeError\<close> only, so what they raise leaves
  the method.
\<close>

definition extract_text :: "response \<Rightarrow> exn + pyval" where
  "extract_text response =
     (if status_code response \<noteq> 200 then Inl (ValueError (Failed_with_response response))
      else
        (case resp_json response of
           Inl e \<Rightarrow> Inl (ValueError (Error_raised_during_decoding e (resp_text response)))
         | Inr parsed_response \<Rightarrow>
             (case parsed_response of
                PDict d \<Rightarrow>
                  (case fmlookup d ''code'' of
                     None \<Rightarrow> Inl (KeyError (PStr ''code''))
                   | Some code \<Rightarrow>
                       if \<not> py_eq_int code 200 then
                         (case fmlookup d ''msg'' of
                            None \<Rightarrow> Inl (KeyError (PStr ''msg''))
                          | Some msg \<Rightarrow> Inl (ValueError (Failed_with_response_code code msg)))
                       else
                         (case fmlookup d ''data'' of
                            None \<Rightarrow> Inl (ValueError (No_content_in_response parsed_response))
                          | Some data \<Rightarrow>
                              bind_exn (getitem_str data ''choices'') (\<lambda>choices.
                              bind_exn (getitem_0 choices) (\<lambda>choice.
                              getitem_str choice ''content''))))
              | _ \<Rightarrow> Inl (ValueError (Unexpected_response_type parsed_response)))))"

text \<open>
  The whole method. \<^verbatim>\<open>enforce_stop_tokens\<close> is imported from the langchain library and
  is a parameter here, as the JWT encoder is. The request is logged when it is handed to
  \<^verbatim>\<open>requests.post\<close>, whatever comes back.
\<close>

definition call ::
  "(jwt_call \<Rightarrow> exn + string) \<Rightarrow> (pyval \<Rightarrow> string list \<Rightarrow> exn + pyval) \<Rightarrow>
   zhipuai \<Rightarrow> string \<Rightarrow> string list option \<Rightarrow> dict \<Rightarrow> world \<Rightarrow> (exn + pyval) \<times> world" where
  "call jwt_encode enforce_stop_tokens self prompt stop kwargs w =
     (let api_key = environ w ''ZHIPUAI_API_KEY''
      in case generate_token jwt_encode api_key 300 w of
           (Inl e, w1) \<Rightarrow> (Inl e, w1)
         | (Inr bear_token, w1) \<Rightarrow>
             (let request = request_of self prompt kwargs bear_token;
                  w2 = w1\<lparr>post_calls := post_calls w1 @ [request]\<rparr>
              in case network w2 request of
                   Inl e \<Rightarrow> (Inl (ValueError (Error_raised_by_inference_endpoint e)), w2)
                 | Inr response \<Rightarrow>
                     (case extract_text response of
                        Inl e \<Rightarrow> (Inl e, w2)
                      | Inr text' \<Rightarrow>
                          (case (case stop of
                                   None \<Rightarrow> Inr text'
                                 | Some s \<Rightarrow> enforce_stop_tokens text' s) of
                             Inl e \<Rightarrow> (Inl e, w2)
                           | Inr text'' \<Rightarrow> (getitem_slice_1_m1 text'', w2)))))"

subsection \<open>Stop sequences\<close>

text \<open>\<open>startswith s p\<close>: the string \<open>s\<close> begins with \<open>p\<close>.\<close>

fun startswith :: "string \<Rightarrow> string \<Rightarrow> bool" where
  "startswith s [] = True"
| "startswith [] (p # ps) = False"
| "startswith (c # cs) (p # ps) = (c = p \<and> startswith cs ps)"

text \<open>
  The text strictly before the earliest position at which one of the stop sequences
  occurs; the whole text when none occurs.
\<close>

fun truncate_at_stop :: "string list \<Rightarrow> string \<Rightarrow> string" where
  "truncate_at_stop stop [] = []"
| "truncate_at_stop stop (c # cs) =
     (if list_ex (startswith (c # cs)) stop then [] else c # truncate_at_stop stop cs)"

text \<open>
  Modelled from the spec: \<^verbatim>\<open>enforce_stop_tokens\<close> is a function of the langchain library
  (\<^verbatim>\<open>langchain.llms.utils\<close>) and its code is not part of the module. The specification
  has it truncate the text at the first occurrence of any stop sequence, keeping the
  text strictly before the earliest match and leaving the text unchanged when none
  matches. It is given a string; on any other value it is taken to raise \<^verbatim>\<open>TypeError\<close>.
\<close>

definition enforce_stop_tokens :: "pyval \<Rightarrow> string list \<Rightarrow> exn + pyval" where
  "enforce_stop_tokens text' stop =
     (case text' of
        PStr s \<Rightarrow> Inr (PStr (truncate_at_stop stop s))
      | _ \<Rightarrow> Inl TypeError)"

subsection \<open>Example values\<close>

text \<open>
  Concrete values at which the theorems below are evaluated: a world whose clock
  advances by one millisecond at each reading, with a key of the form \<^verbatim>\<open>id.secret\<close>
  in the environment and an endpoint that answers every request with status 503; the
  same world with an endpoint that answers with a given response, or without the key;
  an encoder that returns a fixed token; and a configuration with the default values
  of the class.
\<close>

definition example_world :: world where
  "example_world =
     \<lparr>environ = [''ZHIPUAI_API_KEY'' \<mapsto> ''id.secret''],
      clock = (\<lambda>k. 1700000000 + real k / 1000),
      clock_reads = 0,
      network = (\<lambda>r. Inr \<lparr>status_code = 503, resp_text = ''Service Unavailable'',
                             resp_json = Inl ''Expecting value''\<rparr>),
      post_calls = []\<rparr>"

definition example_world_with :: "response \<Rightarrow> world" where
  "example_world_with r = example_world\<lparr>network := (\<lambda>q. Inr r)\<rparr>"

definition example_world_no_key :: world where
  "example_world_no_key = example_world\<lparr>environ := Map.empty\<rparr>"

definition example_encode :: "jwt_call \<Rightarrow> exn + string" where
  "example_encode c = Inr ''token''"

definition example_self :: zhipuai where
  "example_self =
     \<lparr>endpoint_url = ''http://127.0.0.1:8000/'', model_kwargs = None,
      max_token = 20000, temperature = 0.1, top_p = 0.7\<rparr>"

definition ok_response :: "pyval \<Rightarrow> response" where
  "ok_response body = \<lparr>status_code = 200, resp_text = [], resp_json = Inr body\<rparr>"

definition content_body :: "pyval \<Rightarrow> pyval" where
  "content_body content =
     PDict (fmap_of_list
       [(''code'', PInt 200),
        (''data'', PDict (fmap_of_list
           [(''choices'', PList [PDict (fmap_of_list [(''content'', content)])])]))])"

section \<open>Properties of token generation\<close>

lemma str_split_not_Nil: "str_split sep s \<noteq> []"
  by (induction s) (auto split: list.splits)

lemma str_split_no_sep: "sep \<notin> set s \<Longrightarrow> str_split sep s = [s]"
  by (induction s) auto

lemma str_split_append:
  "sep \<notin> set a \<Longrightarrow> str_split sep (a @ sep # b) = a # str_split sep b"
  by (induction a) auto

lemma length_str_split: "length (str_split sep s) = Suc (count_list s sep)"
proof (induction s)
  case Nil
  show ?case by simp
next
  case (Cons c cs)
  then show ?case
    by (cases "str_split sep cs") auto
qed

lemma str_split_one_sep:
  assumes "count_list s sep = 1"
  shows "str_split sep s = [takeWhile (\<lambda>c. c \<noteq> sep) s, tl (dropWhile (\<lambda>c. c \<noteq> sep) s)]"
proof -
  let ?a = "takeWhile (\<lambda>c. c \<noteq> sep) s"
  let ?d = "dropWhile (\<lambda>c. c \<noteq> sep) s"
  have mem: "sep \<in> set s"
    using assms count_list_0_iff [of s sep] by auto
  then have d: "?d = sep # tl ?d"
    by (metis (mono_tags, lifting) dropWhile_eq_Nil_conv hd_dropWhile list.collapse)
  have a: "sep \<notin> set ?a"
    by (auto dest: set_takeWhileD)
  have s: "s = ?a @ sep # tl ?d"
    using d takeWhile_dropWhile_id [of "\<lambda>c. c \<noteq> sep" s] by simp
  have "count_list s sep = count_list ?a sep + Suc (count_list (tl ?d) sep)"
    by (subst s) simp
  with assms a have "count_list (tl ?d) sep = 0"
    by (simp add: count_list_0_iff)
  then have "sep \<notin> set (tl ?d)"
    by (simp add: count_list_0_iff)
  then have "str_split sep (tl ?d) = [tl ?d]"
    by (rule str_split_no_sep)
  with a have "str_split sep (?a @ sep # tl ?d) = [?a, tl ?d]"
    by (simp add: str_split_append)
  with s show ?thesis by simp
qed

lemma three_or_more: "3 \<le> length xs \<Longrightarrow> \<exists>a b c ds. xs = a # b # c # ds"
  by (auto simp: numeral_3_eq_3 Suc_le_length_iff)

text \<open>
  C1, as the specification states it: a credential is cut at its first \<^verbatim>\<open>.\<close> and token
  generation succeeds whenever there is one. The credential \<^verbatim>\<open>a.b.c\<close> contains a
  \<^verbatim>\<open>.\<close>, yet \<^verbatim>\<open>split(".")\<close> cuts it into three parts and the assignment to
  \<^verbatim>\<open>id, secret\<close> fails: the call raises the invalid-key exception and never reaches the
  encoder.
\<close>

theorem generate_token_first_dot_counterexample:
  "CHR ''.'' \<in> set ''a.b.c''
   \<and> generate_token (Inr :: jwt_call \<Rightarrow> exn + jwt_call) (Some ''a.b.c'') 300 example_world
       = (Inl (InvalidCredentialError (ValueError Too_many_values_to_unpack)), example_world)"
  by (simp add: generate_token_def split_apikey_def)

text \<open>
  C1, amended: \<^verbatim>\<open>generate_token\<close> cuts the credential at every \<^verbatim>\<open>.\<close>. For a credential
  with exactly one \<^verbatim>\<open>.\<close> it reaches the encoder with id the text before the \<^verbatim>\<open>.\<close> and
  secret the text after it; for every other credential (no \<^verbatim>\<open>.\<close>, or two or more) it
  fails with \<open>InvalidCredentialError\<close>, wrapping the unpacking error, without reading the
  clock or calling the encoder.
\<close>

theorem generate_token_split:
  "generate_token jwt_encode (Some apikey) exp_seconds w =
     (if count_list apikey CHR ''.'' = 1 then
        (jwt_encode
           \<lparr>jwt_payload =
              [(''api_key'', PStr (takeWhile (\<lambda>c. c \<noteq> CHR ''.'') apikey)),
               (''exp'', PInt (py_round (clock w (clock_reads w) * 1000) + exp_seconds * 1000)),
               (''timestamp'', PInt (py_round (clock w (Suc (clock_reads w)) * 1000)))],
            jwt_key = tl (dropWhile (\<lambda>c. c \<noteq> CHR ''.'') apikey),
            jwt_algorithm = ''HS256'',
            jwt_headers = [(''alg'', ''HS256''), (''sign_type'', ''SIGN'')]\<rparr>,
         w\<lparr>clock_reads := Suc (Suc (clock_reads w))\<rparr>)
      else (Inl (InvalidCredentialError (ValueError
                  (if count_list apikey CHR ''.'' = 0 then Not_enough_values_to_unpack
                   else Too_many_values_to_unpack))), w))"
proof -
  consider (none) "count_list apikey CHR ''.'' = 0"
    | (one) "count_list apikey CHR ''.'' = 1"
    | (more) "2 \<le> count_list apikey CHR ''.''"
    by linarith
  then show ?thesis
  proof cases
    case none
    then have "str_split CHR ''.'' apikey = [apikey]"
      by (simp add: count_list_0_iff str_split_no_sep)
    with none show ?thesis
      by (simp add: generate_token_def split_apikey_def)
  next
    case one
    then show ?thesis
      by (simp add: generate_token_def split_apikey_def str_split_one_sep time_time_def)
  next
    case more
    then have "3 \<le> length (str_split CHR ''.'' apikey)"
      by (simp add: length_str_split)
    then obtain a b c ds where "str_split CHR ''.'' apikey = a # b # c # ds"
      using three_or_more by blast
    with more show ?thesis
      by (simp add: generate_token_def split_apikey_def)
  qed
qed

theorem generate_token_split_witness:
  "generate_token (Inr :: jwt_call \<Rightarrow> exn + jwt_call) (Some ''id.secret'') 300 example_world =
     (Inr \<lparr>jwt_payload = [(''api_key'', PStr ''id''), (''exp'', PInt 1700000300000),
                           (''timestamp'', PInt 1700000000001)],
           jwt_key = ''secret'', jwt_algorithm = ''HS256'',
           jwt_headers = [(''alg'', ''HS256''), (''sign_type'', ''SIGN'')]\<rparr>,
      example_world\<lparr>clock_reads := Suc (Suc 0)\<rparr>)
   \<and> generate_token (Inr :: jwt_call \<Rightarrow> exn + jwt_call) (Some ''idsecret'') 300 example_world =
       (Inl (InvalidCredentialError (ValueError Not_enough_values_to_unpack)), example_world)"
  using generate_token_split [of Inr "''id.secret''" 300 example_world]
    generate_token_split [of Inr "''idsecret''" 300 example_world]
  by (simp add: example_world_def py_round_def)

text \<open>
  C2, as the specification states it: \<^verbatim>\<open>exp\<close> and \<^verbatim>\<open>timestamp\<close> come from one capture of
  the clock, so they differ by exactly the offset in milliseconds. The source reads the
  clock twice (lines 154 and 155). On a clock that advances by one millisecond between
  the two readings, with offset 300, the claims handed to the encoder differ by
  299999, not 300000.
\<close>

theorem generate_token_exp_counterexample:
  "generate_token (Inr :: jwt_call \<Rightarrow> exn + jwt_call) (Some ''id.secret'') 300 example_world =
     (Inr \<lparr>jwt_payload = [(''api_key'', PStr ''id''), (''exp'', PInt 1700000300000),
                           (''timestamp'', PInt 1700000000001)],
           jwt_key = ''secret'', jwt_algorithm = ''HS256'',
           jwt_headers = [(''alg'', ''HS256''), (''sign_type'', ''SIGN'')]\<rparr>,
      example_world\<lparr>clock_reads := 2\<rparr>)
   \<and> (1700000300000 :: int) - 1700000000001 \<noteq> 300 * 1000"
  by (simp add: generate_token_def split_apikey_def time_time_def example_world_def
        py_round_def Let_def)

text \<open>
  C2, amended: for every credential \<^verbatim>\<open>id.secret\<close> (no \<^verbatim>\<open>.\<close> in either part) and every
  offset in seconds, \<^verbatim>\<open>generate_token\<close> reaches the encoder, and the claims it hands
  over have \<^verbatim>\<open>exp\<close> = the first clock reading in milliseconds plus offset * 1000, and
  \<^verbatim>\<open>timestamp\<close> = the second clock reading in milliseconds. So \<^verbatim>\<open>exp - timestamp\<close> is
  offset * 1000 less the milliseconds elapsed between the two readings, and it is
  exactly offset * 1000 if and only if both readings round to the same millisecond.
\<close>

theorem generate_token_claims:
  assumes "CHR ''.'' \<notin> set id'" and "CHR ''.'' \<notin> set secret"
  shows "let now1 = py_round (clock w (clock_reads w) * 1000);
             now2 = py_round (clock w (Suc (clock_reads w)) * 1000);
             exp' = now1 + exp_seconds * 1000
         in generate_token jwt_encode (Some (id' @ ''.'' @ secret)) exp_seconds w =
              (jwt_encode
                 \<lparr>jwt_payload = [(''api_key'', PStr id'), (''exp'', PInt exp'),
                                 (''timestamp'', PInt now2)],
                  jwt_key = secret, jwt_algorithm = ''HS256'',
                  jwt_headers = [(''alg'', ''HS256''), (''sign_type'', ''SIGN'')]\<rparr>,
               w\<lparr>clock_reads := Suc (Suc (clock_reads w))\<rparr>)
            \<and> exp' - now2 = exp_seconds * 1000 - (now2 - now1)
            \<and> (exp' - now2 = exp_seconds * 1000 \<longleftrightarrow> now1 = now2)"
proof -
  have "str_split CHR ''.'' (id' @ ''.'' @ secret) = [id', secret]"
    using assms by (simp add: str_split_append str_split_no_sep)
  then show ?thesis
    by (auto simp: generate_token_def split_apikey_def time_time_def Let_def)
qed

theorem generate_token_claims_witness:
  "CHR ''.'' \<notin> set ''key'' \<and> CHR ''.'' \<notin> set ''pass''
   \<and> generate_token (Inr :: jwt_call \<Rightarrow> exn + jwt_call) (Some ''key.pass'') 60 example_world =
      (Inr \<lparr>jwt_payload = [(''api_key'', PStr ''key''), (''exp'', PInt 1700000060000),
                            (''timestamp'', PInt 1700000000001)],
            jwt_key = ''pass'', jwt_algorithm = ''HS256'',
            jwt_headers = [(''alg'', ''HS256''), (''sign_type'', ''SIGN'')]\<rparr>,
       example_world\<lparr>clock_reads := Suc (Suc 0)\<rparr>)"
  using generate_token_claims [of "''key''" "''pass''" example_world 60 Inr]
  by (simp add: example_world_def py_round_def)

section \<open>Properties of the completion call\<close>

lemma slice_1_m1_eq: "slice_1_m1 xs = butlast (tl xs)"
  by (cases xs)
    (auto simp: slice_1_m1_def Let_def butlast_conv_take min_def max_def nat_diff_distrib)

lemma generate_token_world:
  assumes "generate_token jwt_encode apikey n w = (r, w1)"
  shows "network w1 = network w" and "post_calls w1 = post_calls w"
    and "environ w1 = environ w"
  using assms
  by (auto simp: generate_token_def time_time_def split: sum.splits prod.splits)

text \<open>
  Once the token is there and the endpoint has answered, the result of the call is a
  function of the response alone.
\<close>

lemma call_after_post:
  assumes tok: "generate_token jwt_encode (environ w ''ZHIPUAI_API_KEY'') 300 w = (Inr tok, w1)"
    and net: "network w (request_of self prompt kwargs tok) = Inr r"
  shows "call jwt_encode enforce self prompt stop kwargs w =
           (bind_exn (extract_text r) (\<lambda>t.
              bind_exn (case stop of None \<Rightarrow> Inr t | Some s \<Rightarrow> enforce t s)
                getitem_slice_1_m1),
            w1\<lparr>post_calls := post_calls w @ [request_of self prompt kwargs tok]\<rparr>)"
  using net generate_token_world [OF tok]
  by (simp add: call_def tok Let_def bind_exn_def split: sum.splits)

lemma call_post_calls:
  assumes tok: "generate_token jwt_encode (environ w ''ZHIPUAI_API_KEY'') 300 w = (Inr tok, w1)"
  shows "post_calls (snd (call jwt_encode enforce self prompt stop kwargs w)) =
           post_calls w @ [request_of self prompt kwargs tok]"
  using generate_token_world [OF tok]
  by (simp add: call_def tok Let_def split: sum.splits)

lemma lookup_two_updates:
  "fmlookup (fmadd (fmadd (fmap_of_list base) mk) kw) k =
     (case fmlookup kw k of
        Some v \<Rightarrow> Some v
      | None \<Rightarrow> (case fmlookup mk k of Some v \<Rightarrow> Some v | None \<Rightarrow> map_of base k))"
  by (auto simp: fmlookup_dom_iff fmlookup_of_list split: option.splits)

lemma request_of_lookup:
  "fmlookup (json (request_of self prompt kwargs tok)) k =
     (case fmlookup kwargs k of
        Some v \<Rightarrow> Some v
      | None \<Rightarrow>
          (case fmlookup (case model_kwargs self of None \<Rightarrow> fmempty | Some d \<Rightarrow> d) k of
             Some v \<Rightarrow> Some v
           | None \<Rightarrow>
               map_of [(''prompt'', PStr prompt),
                       (''temperature'', PFloat (temperature self)),
                       (''max_length'', PInt (max_token self)),
                       (''top_p'', PFloat (top_p self))] k))"
  unfolding request_of_def Let_def
  by (simp only: http_request.select_convs lookup_two_updates)

text \<open>The example encoder and the example key give the token \<^verbatim>\<open>token\<close> in any world.\<close>

lemma example_token:
  assumes "environ w ''ZHIPUAI_API_KEY'' = Some ''id.secret''"
  shows "generate_token example_encode (environ w ''ZHIPUAI_API_KEY'') 300 w =
           (Inr ''token'', w\<lparr>clock_reads := Suc (Suc (clock_reads w))\<rparr>)"
  by (simp add: assms generate_token_def split_apikey_def time_time_def example_encode_def)

lemma example_world_key: "environ example_world ''ZHIPUAI_API_KEY'' = Some ''id.secret''"
  by (simp add: example_world_def)

lemma example_world_with_key:
  "environ (example_world_with r) ''ZHIPUAI_API_KEY'' = Some ''id.secret''"
  by (simp add: example_world_with_def example_world_def)

lemma example_world_with_network: "network (example_world_with r) q = Inr r"
  by (simp add: example_world_with_def)

lemma ok_response_simps:
  "status_code (ok_response b) = 200" "resp_json (ok_response b) = Inr b"
  by (simp_all add: ok_response_def)

text \<open>
  C3: the content is the 14 characters \<^verbatim>\<open>"foo STOP bar"\<close>, quotes included, and the stop
  list is \<^verbatim>\<open>["STOP"]\<close>. The truncation runs first, on the raw text; keeping the text
  strictly before the match, it leaves the 5 characters \<^verbatim>\<open>"foo \<close> (the opening quote,
  \<^verbatim>\<open>foo\<close> and a space): the closing quote is gone with the rest. The slice \<^verbatim>\<open>[1:-1]\<close>
  then removes the opening quote and the space. The call returns the 3 characters
  \<^verbatim>\<open>foo\<close>, which is not \<^verbatim>\<open>foo\<close> followed by a space.
\<close>

theorem call_stop_then_strip:
  assumes tok: "generate_token jwt_encode (environ w ''ZHIPUAI_API_KEY'') 300 w = (Inr tok, w1)"
    and net: "network w (request_of self prompt kwargs tok) = Inr r"
    and status: "status_code r = 200"
    and body: \<open>resp_json r = Inr (content_body (PStr ''"foo STOP bar"''))\<close>
    and trunc: \<open>enforce (PStr ''"foo STOP bar"'') [''STOP''] = Inr (PStr ''"foo '')\<close>
  shows \<open>length ''"foo STOP bar"'' = 14
         \<and> fst (call jwt_encode enforce self prompt (Some [''STOP'']) kwargs w)
             = Inr (PStr ''foo'')
         \<and> fst (call jwt_encode enforce self prompt (Some [''STOP'']) kwargs w)
             \<noteq> Inr (PStr ''foo '')\<close>
  using status body trunc
  by (simp add: call_after_post [OF tok net] extract_text_def bind_exn_def content_body_def
        slice_1_m1_eq)

theorem call_stop_then_strip_witness:
  \<open>enforce_stop_tokens (PStr ''"foo STOP bar"'') [''STOP''] = Inr (PStr ''"foo '')
   \<and> fst (call example_encode enforce_stop_tokens example_self ''Who are you?''
            (Some [''STOP'']) fmempty
            (example_world_with (ok_response (content_body (PStr ''"foo STOP bar"'')))))
       = Inr (PStr ''foo'')\<close>
proof -
  have trunc: \<open>enforce_stop_tokens (PStr ''"foo STOP bar"'') [''STOP''] = Inr (PStr ''"foo '')\<close>
    by (simp add: enforce_stop_tokens_def)
  from call_stop_then_strip [where enforce = enforce_stop_tokens,
      OF example_token [OF example_world_with_key] example_world_with_network
        ok_response_simps trunc]
  show ?thesis
    by (simp add: trunc)
qed

text \<open>
  C4: for a response with status 200 whose body is a mapping with \<^verbatim>\<open>code\<close> equal to 200,
  whose \<^verbatim>\<open>data\<close> is a mapping, whose \<^verbatim>\<open>choices\<close> is a list that starts with a mapping, and
  whose \<^verbatim>\<open>content\<close> there is a string, the call without a stop list returns
  \<^verbatim>\<open>data.choices[0].content\<close> without its first and its last character, whatever else
  the body, the data, the list and the choice hold. In particular, for the body
  \<^verbatim>\<open>{"code":200,"data":{"choices":[{"content":"\"hello\""}]}}\<close> it returns the 5
  characters \<^verbatim>\<open>hello\<close>.
\<close>

theorem call_hello:
  assumes tok: "generate_token jwt_encode (environ w ''ZHIPUAI_API_KEY'') 300 w = (Inr tok, w1)"
    and net: "network w (request_of self prompt kwargs tok) = Inr r"
    and status: "status_code r = 200"
    and body: "resp_json r = Inr (PDict d)"
    and code: "fmlookup d ''code'' = Some code" "py_eq_int code 200"
    and data: "fmlookup d ''data'' = Some (PDict dd)"
    and choices: "fmlookup dd ''choices'' = Some (PList (PDict choice # rest))"
    and content: "fmlookup choice ''content'' = Some (PStr s)"
  shows \<open>fst (call jwt_encode enforce self prompt None kwargs w) = Inr (PStr (butlast (tl s)))
         \<and> (\<forall>a mid b. s = a # mid @ [b]
               \<longrightarrow> fst (call jwt_encode enforce self prompt None kwargs w) = Inr (PStr mid))
         \<and> (s = ''"hello"''
               \<longrightarrow> fst (call jwt_encode enforce self prompt None kwargs w) = Inr (PStr ''hello'')
                   \<and> length ''hello'' = 5)\<close>
proof -
  have ext: "extract_text r = Inr (PStr s)"
    using status body code data choices content
    by (simp add: extract_text_def bind_exn_def)
  have res: "fst (call jwt_encode enforce self prompt None kwargs w)
               = Inr (PStr (butlast (tl s)))"
    by (simp add: call_after_post [OF tok net] ext bind_exn_def slice_1_m1_eq)
  show ?thesis
    unfolding res by (auto simp: butlast_append)
qed

theorem call_hello_witness:
  \<open>fst (call example_encode enforce_stop_tokens example_self ''Who are you?'' None
          fmempty (example_world_with (ok_response (content_body (PStr ''"hello"'')))))
     = Inr (PStr ''hello'')\<close>
proof -
  let ?choice = \<open>fmap_of_list [(''content'', PStr ''"hello"'')]\<close>
  let ?dd = "fmap_of_list [(''choices'', PList [PDict ?choice])]"
  let ?d = "fmap_of_list [(''code'', PInt 200), (''data'', PDict ?dd)]"
  have body: \<open>resp_json (ok_response (content_body (PStr ''"hello"''))) = Inr (PDict ?d)\<close>
    by (simp add: ok_response_def content_body_def)
  have status: \<open>status_code (ok_response (content_body (PStr ''"hello"''))) = 200\<close>
    by (simp add: ok_response_def)
  have code: "fmlookup ?d ''code'' = Some (PInt 200)" "py_eq_int (PInt 200) 200"
    and data: "fmlookup ?d ''data'' = Some (PDict ?dd)"
    and choices: "fmlookup ?dd ''choices'' = Some (PList (PDict ?choice # []))"
    and content: \<open>fmlookup ?choice ''content'' = Some (PStr ''"hello"'')\<close>
    by simp_all
  from call_hello [where enforce = enforce_stop_tokens and self = example_self
      and prompt = "''Who are you?''" and kwargs = fmempty,
      OF example_token [OF example_world_with_key] example_world_with_network
        status body code data choices content]
  show ?thesis
    by simp
qed

text \<open>
  C5: when the token has been generated, the call hands exactly one request to
  \<^verbatim>\<open>requests.post\<close>, to the configured URL, and a key of its payload has the value the
  per-call keyword arguments give it; failing that, the value the extra model parameters
  give it; failing that, its value in the base mapping of \<^verbatim>\<open>prompt\<close>, \<^verbatim>\<open>temperature\<close>,
  \<^verbatim>\<open>max_length\<close> (from \<^verbatim>\<open>max_token\<close>) and \<^verbatim>\<open>top_p\<close>. In particular, with \<^verbatim>\<open>top_p\<close> 0.9 in
  the model parameters and 0.5 in the keyword arguments, the payload has \<^verbatim>\<open>top_p\<close> 0.5.
\<close>

theorem call_payload_merge:
  assumes tok: "generate_token jwt_encode (environ w ''ZHIPUAI_API_KEY'') 300 w = (Inr tok, w1)"
  shows "\<exists>req. post_calls (snd (call jwt_encode enforce self prompt stop kwargs w)) =
                  post_calls w @ [req]
           \<and> url req = endpoint_url self
           \<and> (\<forall>k. fmlookup (json req) k =
                 (case fmlookup kwargs k of
                    Some v \<Rightarrow> Some v
                  | None \<Rightarrow>
                      (case fmlookup (case model_kwargs self of
                                        None \<Rightarrow> fmempty | Some d \<Rightarrow> d) k of
                         Some v \<Rightarrow> Some v
                       | None \<Rightarrow>
                           map_of [(''prompt'', PStr prompt),
                                   (''temperature'', PFloat (temperature self)),
                                   (''max_length'', PInt (max_token self)),
                                   (''top_p'', PFloat (top_p self))] k)))
           \<and> (model_kwargs self = Some mk \<and> fmlookup mk ''top_p'' = Some (PFloat 0.9)
                \<and> fmlookup kwargs ''top_p'' = Some (PFloat 0.5)
              \<longrightarrow> fmlookup (json req) ''top_p'' = Some (PFloat 0.5))"
proof (intro exI conjI allI impI)
  show "post_calls (snd (call jwt_encode enforce self prompt stop kwargs w)) =
          post_calls w @ [request_of self prompt kwargs tok]"
    by (rule call_post_calls [OF tok])
  show "url (request_of self prompt kwargs tok) = endpoint_url self"
    by (simp add: request_of_def Let_def)
  show "fmlookup (json (request_of self prompt kwargs tok)) k =
     (case fmlookup kwargs k of
        Some v \<Rightarrow> Some v
      | None \<Rightarrow>
          (case fmlookup (case model_kwargs self of None \<Rightarrow> fmempty | Some d \<Rightarrow> d) k of
             Some v \<Rightarrow> Some v
           | None \<Rightarrow>
               map_of [(''prompt'', PStr prompt),
                       (''temperature'', PFloat (temperature self)),
                       (''max_length'', PInt (max_token self)),
                       (''top_p'', PFloat (top_p self))] k))" for k
    by (rule request_of_lookup)
  show "fmlookup (json (request_of self prompt kwargs tok)) ''top_p'' = Some (PFloat 0.5)"
    if "model_kwargs self = Some mk \<and> fmlookup mk ''top_p'' = Some (PFloat 0.9)
          \<and> fmlookup kwargs ''top_p'' = Some (PFloat 0.5)"
    using that by (simp add: request_of_lookup)
qed

theorem call_payload_merge_witness:
  "fmlookup (json (last (post_calls (snd
      (call example_encode enforce_stop_tokens
         (example_self\<lparr>model_kwargs := Some (fmap_of_list [(''top_p'', PFloat 0.9)])\<rparr>)
         ''Who are you?'' None (fmap_of_list [(''top_p'', PFloat 0.5)]) example_world)))))
     ''top_p'' = Some (PFloat 0.5)"
proof -
  let ?mk = "fmap_of_list [(''top_p'', PFloat 0.9)]"
  let ?self = "example_self\<lparr>model_kwargs := Some ?mk\<rparr>"
  let ?kw = "fmap_of_list [(''top_p'', PFloat 0.5)]"
  from call_payload_merge [OF example_token [OF example_world_key],
      where enforce = enforce_stop_tokens and self = ?self and prompt = "''Who are you?''"
      and stop = None and kwargs = ?kw and mk = ?mk]
  obtain req where
    posts: "post_calls (snd (call example_encode enforce_stop_tokens ?self ''Who are you?'' None
               ?kw example_world)) = post_calls example_world @ [req]"
    and top_p: "fmlookup (json req) ''top_p'' = Some (PFloat 0.5)"
    by auto
  show ?thesis
    unfolding posts by (simp add: top_p)
qed

text \<open>
  C6, as the specification states it: every body that is a mapping whose \<^verbatim>\<open>code\<close>
  differs from 200 gives \<open>RemoteServiceError\<close>. The message of that error interpolates
  \<^verbatim>\<open>parsed_response['msg']\<close>, an unguarded lookup: for the body \<^verbatim>\<open>{"code":500}\<close> the call
  fails with \<^verbatim>\<open>KeyError\<close> instead.
\<close>

theorem call_remote_code_counterexample:
  "fst (call example_encode enforce_stop_tokens example_self ''Who are you?'' None fmempty
          (example_world_with (ok_response (PDict (fmap_of_list [(''code'', PInt 500)])))))
     = Inl (KeyError (PStr ''msg''))"
  by (simp add: call_after_post [OF example_token [OF example_world_with_key]
        example_world_with_network] extract_text_def ok_response_def bind_exn_def)

text \<open>
  C6, amended: for every response with status 200 whose body is a mapping with a \<^verbatim>\<open>code\<close>
  that differs from 200 and with a \<^verbatim>\<open>msg\<close>, the call fails with \<open>RemoteServiceError\<close>
  carrying that code and that message, and returns no text. When the body has no
  \<^verbatim>\<open>msg\<close>, the lookup \<^verbatim>\<open>parsed_response['msg']\<close> raises \<^verbatim>\<open>KeyError\<close> instead.
\<close>

theorem call_remote_code:
  assumes tok: "generate_token jwt_encode (environ w ''ZHIPUAI_API_KEY'') 300 w = (Inr tok, w1)"
    and net: "network w (request_of self prompt kwargs tok) = Inr r"
    and status: "status_code r = 200"
    and body: "resp_json r = Inr (PDict d)"
    and code: "fmlookup d ''code'' = Some code" "\<not> py_eq_int code 200"
  shows "(\<forall>msg. fmlookup d ''msg'' = Some msg
            \<longrightarrow> fst (call jwt_encode enforce self prompt stop kwargs w)
                  = Inl (RemoteServiceError code msg))
       \<and> (fmlookup d ''msg'' = None
            \<longrightarrow> fst (call jwt_encode enforce self prompt stop kwargs w)
                  = Inl (KeyError (PStr ''msg'')))"
  using status body code
  by (simp add: call_after_post [OF tok net] extract_text_def bind_exn_def)

theorem call_remote_code_witness:
  "fst (call example_encode enforce_stop_tokens example_self ''Who are you?'' None fmempty
          (example_world_with (ok_response (PDict (fmap_of_list
             [(''code'', PInt 500), (''msg'', PStr ''bad request''),
              (''data'', PDict fmempty)])))))
     = Inl (RemoteServiceError (PInt 500) (PStr ''bad request''))
   \<and> fst (call example_encode enforce_stop_tokens example_self ''Who are you?'' None fmempty
          (example_world_with (ok_response (PDict (fmap_of_list
             [(''code'', PStr ''E42''), (''data'', PDict fmempty)])))))
     = Inl (KeyError (PStr ''msg''))"
proof -
  let ?d = "fmap_of_list [(''code'', PInt 500), (''msg'', PStr ''bad request''),
                          (''data'', PDict fmempty)]"
  let ?e = "fmap_of_list [(''code'', PStr ''E42''), (''data'', PDict fmempty)]"
  have code_d: "fmlookup ?d ''code'' = Some (PInt 500)" "\<not> py_eq_int (PInt 500) 200"
    and code_e: "fmlookup ?e ''code'' = Some (PStr ''E42'')" "\<not> py_eq_int (PStr ''E42'') 200"
    by simp_all
  note at_body = call_remote_code [where enforce = enforce_stop_tokens
      and self = example_self and prompt = "''Who are you?''" and stop = None
      and kwargs = fmempty,
      OF example_token [OF example_world_with_key] example_world_with_network
        ok_response_simps]
  from at_body [OF code_d] have
    "fst (call example_encode enforce_stop_tokens example_self ''Who are you?'' None fmempty
            (example_world_with (ok_response (PDict ?d))))
       = Inl (RemoteServiceError (PInt 500) (PStr ''bad request''))"
    by simp
  moreover from at_body [OF code_e] have
    "fst (call example_encode enforce_stop_tokens example_self ''Who are you?'' None fmempty
            (example_world_with (ok_response (PDict ?e))))
       = Inl (KeyError (PStr ''msg''))"
    by simp
  ultimately show ?thesis
    by (intro conjI)
qed

text \<open>
  C7: for every response whose status code is not 200, the call fails with
  \<open>EndpointError\<close> carrying the response, whatever the body is: the body is not read.
\<close>

theorem call_status_not_200:
  assumes tok: "generate_token jwt_encode (environ w ''ZHIPUAI_API_KEY'') 300 w = (Inr tok, w1)"
    and net: "network w (request_of self prompt kwargs tok) = Inr r"
    and status: "status_code r \<noteq> 200"
  shows "fst (call jwt_encode enforce self prompt stop kwargs w) = Inl (EndpointError r)"
  using status
  by (simp add: call_after_post [OF tok net] extract_text_def bind_exn_def)

theorem call_status_not_200_witness:
  "fst (call example_encode enforce_stop_tokens example_self ''Who are you?'' None fmempty
          example_world)
     = Inl (EndpointError \<lparr>status_code = 503, resp_text = ''Service Unavailable'',
                            resp_json = Inl ''Expecting value''\<rparr>)"
proof -
  let ?r = "\<lparr>status_code = 503, resp_text = ''Service Unavailable'',
             resp_json = Inl ''Expecting value''\<rparr>"
  have net: "network example_world
               (request_of example_self ''Who are you?'' fmempty ''token'') = Inr ?r"
    by (simp add: example_world_def)
  have status: "status_code ?r \<noteq> 200"
    by simp
  show ?thesis
    by (rule call_status_not_200 [OF example_token [OF example_world_key] net status])
qed

text \<open>
  C8: when \<^verbatim>\<open>ZHIPUAI_API_KEY\<close> is not in the environment, the call fails in token
  generation with \<open>InvalidCredentialError\<close> (wrapping the \<^verbatim>\<open>AttributeError\<close> of
  \<^verbatim>\<open>None.split\<close>), and the world is left as it was: no request is handed to
  \<^verbatim>\<open>requests.post\<close>.
\<close>

theorem call_no_api_key:
  assumes "environ w ''ZHIPUAI_API_KEY'' = None"
  shows "call jwt_encode enforce self prompt stop kwargs w =
           (Inl (InvalidCredentialError AttributeError), w)
         \<and> post_calls (snd (call jwt_encode enforce self prompt stop kwargs w)) = post_calls w"
  using assms
  by (simp add: call_def generate_token_def split_apikey_def)

theorem call_no_api_key_witness:
  "environ example_world_no_key ''ZHIPUAI_API_KEY'' = None
   \<and> call example_encode enforce_stop_tokens example_self ''Who are you?'' None fmempty
        example_world_no_key
       = (Inl (InvalidCredentialError AttributeError), example_world_no_key)
   \<and> post_calls (snd (call example_encode enforce_stop_tokens example_self ''Who are you?''
                          None fmempty example_world_no_key)) = []"
proof -
  have key: "environ example_world_no_key ''ZHIPUAI_API_KEY'' = None"
    by (simp add: example_world_no_key_def)
  have posts: "post_calls example_world_no_key = []"
    by (simp add: example_world_no_key_def example_world_def)
  from call_no_api_key [OF key, where jwt_encode = example_encode
      and enforce = enforce_stop_tokens and self = example_self and prompt = "''Who are you?''"
      and stop = None and kwargs = fmempty]
  show ?thesis
    by (simp add: key posts)
qed

text \<open>
  C9: for a response with status 200 whose body is a mapping with \<^verbatim>\<open>code\<close> equal to 200,
  the content is read by the plain subscripts \<^verbatim>\<open>data['choices'][0]['content']\<close>. When
  \<^verbatim>\<open>data\<close> is a mapping without \<^verbatim>\<open>choices\<close> the call fails with \<^verbatim>\<open>KeyError\<close>; when
  \<^verbatim>\<open>choices\<close> is the empty list, with \<^verbatim>\<open>IndexError\<close>; when the first choice is a mapping
  without \<^verbatim>\<open>content\<close>, with \<^verbatim>\<open>KeyError\<close>. \<open>MissingContentError\<close> is what the call fails
  with when the \<^verbatim>\<open>data\<close> key is absent, and when \<^verbatim>\<open>data\<close> is present the call does not
  fail with it (unless the stop-sequence function of the library were to raise it).
\<close>

theorem call_unguarded_extraction:
  assumes tok: "generate_token jwt_encode (environ w ''ZHIPUAI_API_KEY'') 300 w = (Inr tok, w1)"
    and net: "network w (request_of self prompt kwargs tok) = Inr r"
    and status: "status_code r = 200"
    and body: "resp_json r = Inr (PDict d)"
    and code: "fmlookup d ''code'' = Some code" "py_eq_int code 200"
  shows "(fmlookup d ''data'' = Some (PDict dd) \<and> fmlookup dd ''choices'' = None
            \<longrightarrow> fst (call jwt_encode enforce self prompt stop kwargs w)
                  = Inl (KeyError (PStr ''choices'')))
       \<and> (fmlookup d ''data'' = Some (PDict dd) \<and> fmlookup dd ''choices'' = Some (PList [])
            \<longrightarrow> fst (call jwt_encode enforce self prompt stop kwargs w) = Inl IndexError)
       \<and> (fmlookup d ''data'' = Some (PDict dd)
            \<and> fmlookup dd ''choices'' = Some (PList (PDict choice # rest))
            \<and> fmlookup choice ''content'' = None
            \<longrightarrow> fst (call jwt_encode enforce self prompt stop kwargs w)
                  = Inl (KeyError (PStr ''content'')))
       \<and> (fmlookup d ''data'' = None
            \<longrightarrow> fst (call jwt_encode enforce self prompt stop kwargs w)
                  = Inl (MissingContentError (PDict d)))
       \<and> (fmlookup d ''data'' \<noteq> None
            \<and> (stop = None \<or> (\<forall>t s v. enforce t s \<noteq> Inl (MissingContentError v)))
            \<longrightarrow> (\<forall>v. fst (call jwt_encode enforce self prompt stop kwargs w)
                       \<noteq> Inl (MissingContentError v)))"
proof -
  have call: "fst (call jwt_encode enforce self prompt stop kwargs w) =
      bind_exn (extract_text r) (\<lambda>t.
        bind_exn (case stop of None \<Rightarrow> Inr t | Some s \<Rightarrow> enforce t s) getitem_slice_1_m1)"
    by (simp add: call_after_post [OF tok net])
  have ext: "extract_text r =
      (case fmlookup d ''data'' of
         None \<Rightarrow> Inl (MissingContentError (PDict d))
       | Some data \<Rightarrow>
           bind_exn (getitem_str data ''choices'') (\<lambda>choices.
           bind_exn (getitem_0 choices) (\<lambda>choice. getitem_str choice ''content'')))"
    using status body code by (simp add: extract_text_def)
  have no_mce: "getitem_str x k \<noteq> Inl (MissingContentError v)"
               "getitem_0 x \<noteq> Inl (MissingContentError v)"
               "getitem_slice_1_m1 x \<noteq> Inl (MissingContentError v)" for x k v
    by (cases x; auto split: option.splits list.splits)+
  show ?thesis
    unfolding call ext
    using no_mce
    by (auto simp: bind_exn_def split: sum.splits option.splits)
qed

theorem call_unguarded_extraction_witness:
  "fst (call example_encode enforce_stop_tokens example_self ''Who are you?'' None fmempty
          (example_world_with (ok_response (PDict (fmap_of_list
             [(''code'', PInt 200), (''data'', PDict fmempty)])))))
     = Inl (KeyError (PStr ''choices''))
   \<and> fst (call example_encode enforce_stop_tokens example_self ''Who are you?'' None fmempty
          (example_world_with (ok_response (PDict (fmap_of_list
             [(''code'', PInt 200),
              (''data'', PDict (fmap_of_list [(''choices'', PList [])]))])))))
     = Inl IndexError
   \<and> fst (call example_encode enforce_stop_tokens example_self ''Who are you?'' None fmempty
          (example_world_with (ok_response (PDict (fmap_of_list
             [(''code'', PInt 200),
              (''data'', PDict (fmap_of_list [(''choices'', PList [PDict fmempty])]))])))))
     = Inl (KeyError (PStr ''content''))
   \<and> fst (call example_encode enforce_stop_tokens example_self ''Who are you?'' None fmempty
          (example_world_with (ok_response (PDict (fmap_of_list [(''code'', PInt 200)])))))
     = Inl (MissingContentError (PDict (fmap_of_list [(''code'', PInt 200)])))"
proof -
  let ?d1 = "fmap_of_list [(''code'', PInt 200), (''data'', PDict fmempty)]"
  let ?dd2 = "fmap_of_list [(''choices'', PList [])]"
  let ?d2 = "fmap_of_list [(''code'', PInt 200), (''data'', PDict ?dd2)]"
  let ?dd3 = "fmap_of_list [(''choices'', PList [PDict fmempty])]"
  let ?d3 = "fmap_of_list [(''code'', PInt 200), (''data'', PDict ?dd3)]"
  let ?d4 = "fmap_of_list [(''code'', PInt 200)]"
  have ok: "py_eq_int (PInt 200) 200"
    by simp
  have c1: "fmlookup ?d1 ''code'' = Some (PInt 200)"
    and c2: "fmlookup ?d2 ''code'' = Some (PInt 200)"
    and c3: "fmlookup ?d3 ''code'' = Some (PInt 200)"
    and c4: "fmlookup ?d4 ''code'' = Some (PInt 200)"
    by simp_all
  note at_body = call_unguarded_extraction [OF example_token [OF example_world_with_key]
      example_world_with_network ok_response_simps]
  from at_body [OF c1 ok, where dd = fmempty
      and enforce = enforce_stop_tokens and self = example_self
      and prompt = "''Who are you?''" and stop = None and kwargs = fmempty]
  have r1: "fst (call example_encode enforce_stop_tokens example_self ''Who are you?'' None
                  fmempty (example_world_with (ok_response (PDict ?d1))))
              = Inl (KeyError (PStr ''choices''))"
    by simp
  from at_body [OF c2 ok, where dd = ?dd2
      and enforce = enforce_stop_tokens and self = example_self
      and prompt = "''Who are you?''" and stop = None and kwargs = fmempty]
  have r2: "fst (call example_encode enforce_stop_tokens example_self ''Who are you?'' None
                  fmempty (example_world_with (ok_response (PDict ?d2)))) = Inl IndexError"
    by simp
  from at_body [OF c3 ok, where dd = ?dd3 and choice = fmempty and rest = "[]"
      and enforce = enforce_stop_tokens and self = example_self
      and prompt = "''Who are you?''" and stop = None and kwargs = fmempty]
  have r3: "fst (call example_encode enforce_stop_tokens example_self ''Who are you?'' None
                  fmempty (example_world_with (ok_response (PDict ?d3))))
              = Inl (KeyError (PStr ''content''))"
    by simp
  from at_body [OF c4 ok, where dd = fmempty
      and enforce = enforce_stop_tokens and self = example_self
      and prompt = "''Who are you?''" and stop = None and kwargs = fmempty]
  have r4: "fst (call example_encode enforce_stop_tokens example_self ''Who are you?'' None
                  fmempty (example_world_with (ok_response (PDict ?d4))))
              = Inl (MissingContentError (PDict ?d4))"
    by simp
  from r1 r2 r3 r4 show ?thesis
    by (intro conjI)
qed

text \<open>
  C10: the slice of line 144 is unconditional. Whenever the token is there, the endpoint
  has answered and the extraction has given a text, the call returns that text (after
  the stop-sequence truncation, when a stop list is given) without its first and its
  last element, whatever these are: no check is made that they are quote characters,
  and a text of two characters or fewer gives the empty string. Conversely, whenever
  the call returns a value, it is the result of that slice on the extracted text.
\<close>

theorem call_strip_unconditional:
  "(generate_token jwt_encode (environ w ''ZHIPUAI_API_KEY'') 300 w = (Inr tok, w')
      \<and> network w (request_of self prompt kwargs tok) = Inr r
      \<and> extract_text r = Inr t
      \<and> (case stop of None \<Rightarrow> Inr t | Some ss \<Rightarrow> enforce t ss) = Inr t'
    \<longrightarrow> (\<forall>s. t' = PStr s
              \<longrightarrow> fst (call jwt_encode enforce self prompt stop kwargs w)
                    = Inr (PStr (butlast (tl s)))
                \<and> (\<forall>a mid b. s = a # mid @ [b]
                      \<longrightarrow> fst (call jwt_encode enforce self prompt stop kwargs w)
                            = Inr (PStr mid))
                \<and> (length s \<le> 2
                      \<longrightarrow> fst (call jwt_encode enforce self prompt stop kwargs w)
                            = Inr (PStr [])))
        \<and> (\<forall>xs. t' = PList xs
              \<longrightarrow> fst (call jwt_encode enforce self prompt stop kwargs w)
                    = Inr (PList (butlast (tl xs)))))
   \<and> (fst (call jwt_encode enforce self prompt stop kwargs w) = Inr result
    \<longrightarrow> (\<exists>tok r t t'.
            fst (generate_token jwt_encode (environ w ''ZHIPUAI_API_KEY'') 300 w) = Inr tok
          \<and> network w (request_of self prompt kwargs tok) = Inr r
          \<and> extract_text r = Inr t
          \<and> (case stop of None \<Rightarrow> Inr t | Some ss \<Rightarrow> enforce t ss) = Inr t'
          \<and> ((\<exists>s. t' = PStr s \<and> result = PStr (butlast (tl s)))
             \<or> (\<exists>xs. t' = PList xs \<and> result = PList (butlast (tl xs))))))"
proof (intro conjI impI)
  assume "generate_token jwt_encode (environ w ''ZHIPUAI_API_KEY'') 300 w = (Inr tok, w')
      \<and> network w (request_of self prompt kwargs tok) = Inr r
      \<and> extract_text r = Inr t
      \<and> (case stop of None \<Rightarrow> Inr t | Some ss \<Rightarrow> enforce t ss) = Inr t'"
  then have tok: "generate_token jwt_encode (environ w ''ZHIPUAI_API_KEY'') 300 w = (Inr tok, w')"
    and net: "network w (request_of self prompt kwargs tok) = Inr r"
    and t: "extract_text r = Inr t"
    and t': "(case stop of None \<Rightarrow> Inr t | Some ss \<Rightarrow> enforce t ss) = Inr t'"
    by simp_all
  have res: "fst (call jwt_encode enforce self prompt stop kwargs w) = getitem_slice_1_m1 t'"
    by (simp add: call_after_post [OF tok net] t t' bind_exn_def)
  show "\<forall>s. t' = PStr s
              \<longrightarrow> fst (call jwt_encode enforce self prompt stop kwargs w)
                    = Inr (PStr (butlast (tl s)))
                \<and> (\<forall>a mid b. s = a # mid @ [b]
                      \<longrightarrow> fst (call jwt_encode enforce self prompt stop kwargs w)
                            = Inr (PStr mid))
                \<and> (length s \<le> 2
                      \<longrightarrow> fst (call jwt_encode enforce self prompt stop kwargs w)
                            = Inr (PStr []))"
    unfolding res by (auto simp: slice_1_m1_eq butlast_append butlast_conv_take)
  show "\<forall>xs. t' = PList xs
              \<longrightarrow> fst (call jwt_encode enforce self prompt stop kwargs w)
                    = Inr (PList (butlast (tl xs)))"
    unfolding res by (simp add: slice_1_m1_eq)
next
  assume res: "fst (call jwt_encode enforce self prompt stop kwargs w) = Inr result"
  obtain g w1 where
    gen: "generate_token jwt_encode (environ w ''ZHIPUAI_API_KEY'') 300 w = (g, w1)"
    by (cases "generate_token jwt_encode (environ w ''ZHIPUAI_API_KEY'') 300 w")
  from res gen obtain tok where g: "g = Inr tok"
    by (cases g) (auto simp: call_def)
  note tok = gen [unfolded g]
  from res tok obtain r where net: "network w (request_of self prompt kwargs tok) = Inr r"
    using generate_token_world [OF tok]
    by (cases "network w (request_of self prompt kwargs tok)") (auto simp: call_def Let_def)
  from res have b: "bind_exn (extract_text r) (\<lambda>t.
        bind_exn (case stop of None \<Rightarrow> Inr t | Some s \<Rightarrow> enforce t s)
          getitem_slice_1_m1) = Inr result"
    by (simp add: call_after_post [OF tok net])
  then obtain t where t: "extract_text r = Inr t"
    by (cases "extract_text r") (auto simp: bind_exn_def)
  with b obtain t' where t': "(case stop of None \<Rightarrow> Inr t | Some s \<Rightarrow> enforce t s) = Inr t'"
    by (cases "case stop of None \<Rightarrow> Inr t | Some s \<Rightarrow> enforce t s") (auto simp: bind_exn_def)
  with b t have sl: "getitem_slice_1_m1 t' = Inr result"
    by (simp add: bind_exn_def)
  then have "(\<exists>s. t' = PStr s \<and> result = PStr (butlast (tl s)))
            \<or> (\<exists>xs. t' = PList xs \<and> result = PList (butlast (tl xs)))"
    by (cases t') (auto simp: slice_1_m1_eq)
  with tok net t t'
  show "\<exists>tok r t t'.
            fst (generate_token jwt_encode (environ w ''ZHIPUAI_API_KEY'') 300 w) = Inr tok
          \<and> network w (request_of self prompt kwargs tok) = Inr r
          \<and> extract_text r = Inr t
          \<and> (case stop of None \<Rightarrow> Inr t | Some ss \<Rightarrow> enforce t ss) = Inr t'
          \<and> ((\<exists>s. t' = PStr s \<and> result = PStr (butlast (tl s)))
             \<or> (\<exists>xs. t' = PList xs \<and> result = PList (butlast (tl xs))))"
    by (intro exI [of _ tok] exI [of _ r] exI [of _ t] exI [of _ t']) simp
qed

theorem call_strip_unconditional_witness:
  "fst (call example_encode enforce_stop_tokens example_self ''Who are you?'' None fmempty
          (example_world_with (ok_response (content_body (PStr ''abc'')))))
     = Inr (PStr ''b'')
   \<and> fst (call example_encode enforce_stop_tokens example_self ''Who are you?'' None fmempty
          (example_world_with (ok_response (content_body (PStr ''ab'')))))
     = Inr (PStr '''')
   \<and> fst (call example_encode enforce_stop_tokens example_self ''Who are you?''
          (Some [''c'']) fmempty
          (example_world_with (ok_response (content_body (PStr ''abcd'')))))
     = Inr (PStr '''')"
proof -
  have ext: "extract_text (ok_response (content_body c)) = Inr c" for c
    by (simp add: extract_text_def ok_response_def content_body_def bind_exn_def)
  have trunc: "enforce_stop_tokens (PStr ''abcd'') [''c''] = Inr (PStr ''ab'')"
    by (simp add: enforce_stop_tokens_def)
  note tokw = example_token [OF example_world_with_key]
  have r1: "fst (call example_encode enforce_stop_tokens example_self ''Who are you?'' None
                   fmempty (example_world_with (ok_response (content_body (PStr ''abc'')))))
              = Inr (PStr ''b'')"
    using call_strip_unconditional [where jwt_encode = example_encode
        and enforce = enforce_stop_tokens and self = example_self
        and prompt = "''Who are you?''" and stop = None and kwargs = fmempty
        and w = "example_world_with (ok_response (content_body (PStr ''abc'')))"
        and tok = "''token''" and r = "ok_response (content_body (PStr ''abc''))"
        and w' = "(example_world_with (ok_response (content_body (PStr ''abc''))))
                    \<lparr>clock_reads := Suc (Suc (clock_reads
                       (example_world_with (ok_response (content_body (PStr ''abc''))))))\<rparr>"
        and t = "PStr ''abc''" and t' = "PStr ''abc''" and result = "PStr ''b''",
        THEN conjunct1]
    by (simp add: tokw example_world_with_network ext)
  have r2: "fst (call example_encode enforce_stop_tokens example_self ''Who are you?'' None
                   fmempty (example_world_with (ok_response (content_body (PStr ''ab'')))))
              = Inr (PStr '''')"
    using call_strip_unconditional [where jwt_encode = example_encode
        and enforce = enforce_stop_tokens and self = example_self
        and prompt = "''Who are you?''" and stop = None and kwargs = fmempty
        and w = "example_world_with (ok_response (content_body (PStr ''ab'')))"
        and tok = "''token''" and r = "ok_response (content_body (PStr ''ab''))"
        and w' = "(example_world_with (ok_response (content_body (PStr ''ab''))))
                    \<lparr>clock_reads := Suc (Suc (clock_reads
                       (example_world_with (ok_response (content_body (PStr ''ab''))))))\<rparr>"
        and t = "PStr ''ab''" and t' = "PStr ''ab''" and result = "PStr ''''",
        THEN conjunct1]
    by (simp add: tokw example_world_with_network ext)
  have r3: "fst (call example_encode enforce_stop_tokens example_self ''Who are you?''
                   (Some [''c'']) fmempty
                   (example_world_with (ok_response (content_body (PStr ''abcd'')))))
              = Inr (PStr '''')"
    using call_strip_unconditional [where jwt_encode = example_encode
        and enforce = enforce_stop_tokens and self = example_self
        and prompt = "''Who are you?''" and stop = "Some [''c'']" and kwargs = fmempty
        and w = "example_world_with (ok_response (content_body (PStr ''abcd'')))"
        and tok = "''token''" and r = "ok_response (content_body (PStr ''abcd''))"
        and w' = "(example_world_with (ok_response (content_body (PStr ''abcd''))))
                    \<lparr>clock_reads := Suc (Suc (clock_reads
                       (example_world_with (ok_response (content_body (PStr ''abcd''))))))\<rparr>"
        and t = "PStr ''abcd''" and t' = "PStr ''ab''" and result = "PStr ''''",
        THEN conjunct1]
    by (simp add: tokw example_world_with_network ext trunc)
  from r1 r2 r3 show ?thesis
    by (intro conjI)
qed

end
